theory Spec2Isabelle
  imports Main "HOL-Library.Sublist" "HOL-Library.Multiset" "HOL-Library.List_Lexorder"
    "HOL-Library.Word"
begin

section \<open>Modes\<close>

text \<open>
  Modelled from the spec: the enum of modes (\<^verbatim>\<open>src/mode/mode.ts\<close>) is imported by the
  sources but its declaration is not among them. The members are the modes that section 3
  of the specification lists. The sources name \<^verbatim>\<open>Normal\<close> and \<^verbatim>\<open>Insert\<close> only.
\<close>

datatype ModeName =
  Normal | Insert | Visual | VisualLine | VisualBlock | Replace | OperatorPending
  | SearchInProgress | CommandLine | Disabled

section \<open>Global state (\<^verbatim>\<open>src/state/globalState.ts\<close>)\<close>

datatype SearchDirection = Forward | Backward

text \<open>
  A \<^verbatim>\<open>SearchState\<close> as \<^verbatim>\<open>GlobalState.load\<close> constructs it: direction, start position
  (line and character), search string, the options argument (always \<^verbatim>\<open>undefined\<close> in
  \<^verbatim>\<open>load\<close>) and the mode.
\<close>

record SearchState =
  searchDirection :: SearchDirection
  searchStartPosition :: "nat \<times> nat"
  searchString :: string
  searchOptions :: "unit option"
  searchMode :: ModeName

text \<open>
  Every field of the class is \<^verbatim>\<open>private static\<close>: the record below is the one copy the
  process holds. The classes \<^verbatim>\<open>RecordedState\<close>, \<^verbatim>\<open>SubstituteState\<close>, \<^verbatim>\<open>JumpTracker\<close>
  and \<^verbatim>\<open>SearchHistory\<close> are declared elsewhere; they are the type parameters
  \<open>'r\<close>, \<open>'sub\<close>, \<open>'j\<close> and \<open>'h\<close>. A field that may hold \<^verbatim>\<open>undefined\<close> is an option.
\<close>

record ('r, 'sub, 'j, 'h) GlobalStatics =
  previousFullAction_s :: "'r option"
  searchStatePrevious_s :: "SearchState list"
  substituteState_s :: "'sub option"
  searchState_s :: "SearchState option"
  searchStateIndex_s :: int
  hl_s :: bool
  jumpTracker_s :: 'j
  searchHistory_s :: "'h option"

text \<open>
  An instance of \<^verbatim>\<open>GlobalState\<close> has no field of its own: it is an object identity, and
  every accessor takes it as \<^verbatim>\<open>this\<close>.
\<close>

datatype GlobalState = GlobalState nat

text \<open>The static initialisers; the jump tracker is \<^verbatim>\<open>new JumpTracker()\<close>, a parameter.\<close>

definition initialStatics :: "'j \<Rightarrow> ('r, 'sub, 'j, 'h) GlobalStatics" where
  "initialStatics newJumpTracker =
     \<lparr> previousFullAction_s = None, searchStatePrevious_s = [], substituteState_s = None,
       searchState_s = None, searchStateIndex_s = 0, hl_s = True,
       jumpTracker_s = newJumpTracker, searchHistory_s = None \<rparr>"

subsection \<open>Getters and setters\<close>

definition get_searchStatePrevious ::
  "GlobalState \<Rightarrow> ('r, 'sub, 'j, 'h) GlobalStatics \<Rightarrow> SearchState list" where
  "get_searchStatePrevious this g = searchStatePrevious_s g"

text \<open>The setter concatenates: \<^verbatim>\<open>_searchStatePrevious.concat(states)\<close>.\<close>

definition set_searchStatePrevious ::
  "GlobalState \<Rightarrow> SearchState list \<Rightarrow> ('r, 'sub, 'j, 'h) GlobalStatics
     \<Rightarrow> ('r, 'sub, 'j, 'h) GlobalStatics" where
  "set_searchStatePrevious this states g =
     g\<lparr>searchStatePrevious_s := searchStatePrevious_s g @ states\<rparr>"

definition get_previousFullAction ::
  "GlobalState \<Rightarrow> ('r, 'sub, 'j, 'h) GlobalStatics \<Rightarrow> 'r option" where
  "get_previousFullAction this g = previousFullAction_s g"

definition set_previousFullAction ::
  "GlobalState \<Rightarrow> 'r option \<Rightarrow> ('r, 'sub, 'j, 'h) GlobalStatics
     \<Rightarrow> ('r, 'sub, 'j, 'h) GlobalStatics" where
  "set_previousFullAction this state g = g\<lparr>previousFullAction_s := state\<rparr>"

definition get_substituteState ::
  "GlobalState \<Rightarrow> ('r, 'sub, 'j, 'h) GlobalStatics \<Rightarrow> 'sub option" where
  "get_substituteState this g = substituteState_s g"

definition set_substituteState ::
  "GlobalState \<Rightarrow> 'sub option \<Rightarrow> ('r, 'sub, 'j, 'h) GlobalStatics
     \<Rightarrow> ('r, 'sub, 'j, 'h) GlobalStatics" where
  "set_substituteState this state g = g\<lparr>substituteState_s := state\<rparr>"

definition get_searchState ::
  "GlobalState \<Rightarrow> ('r, 'sub, 'j, 'h) GlobalStatics \<Rightarrow> SearchState option" where
  "get_searchState this g = searchState_s g"

definition set_searchState ::
  "GlobalState \<Rightarrow> SearchState option \<Rightarrow> ('r, 'sub, 'j, 'h) GlobalStatics
     \<Rightarrow> ('r, 'sub, 'j, 'h) GlobalStatics" where
  "set_searchState this state g = g\<lparr>searchState_s := state\<rparr>"

definition get_searchStateIndex ::
  "GlobalState \<Rightarrow> ('r, 'sub, 'j, 'h) GlobalStatics \<Rightarrow> int" where
  "get_searchStateIndex this g = searchStateIndex_s g"

definition set_searchStateIndex ::
  "GlobalState \<Rightarrow> int \<Rightarrow> ('r, 'sub, 'j, 'h) GlobalStatics
     \<Rightarrow> ('r, 'sub, 'j, 'h) GlobalStatics" where
  "set_searchStateIndex this state g = g\<lparr>searchStateIndex_s := state\<rparr>"

definition get_hl :: "GlobalState \<Rightarrow> ('r, 'sub, 'j, 'h) GlobalStatics \<Rightarrow> bool" where
  "get_hl this g = hl_s g"

definition set_hl ::
  "GlobalState \<Rightarrow> bool \<Rightarrow> ('r, 'sub, 'j, 'h) GlobalStatics
     \<Rightarrow> ('r, 'sub, 'j, 'h) GlobalStatics" where
  "set_hl this enabled g = g\<lparr>hl_s := enabled\<rparr>"

definition get_jumpTracker :: "GlobalState \<Rightarrow> ('r, 'sub, 'j, 'h) GlobalStatics \<Rightarrow> 'j" where
  "get_jumpTracker this g = jumpTracker_s g"

text \<open>
  There is no setter for the jump tracker: the getter hands out the one tracker object,
  and a caller changes it through a method, \<^verbatim>\<open>globalState.jumpTracker.m(...)\<close>. The method
  is the parameter \<open>m\<close>, a function on the tracker.
\<close>

definition call_jumpTracker ::
  "GlobalState \<Rightarrow> ('j \<Rightarrow> 'j) \<Rightarrow> ('r, 'sub, 'j, 'h) GlobalStatics
     \<Rightarrow> ('r, 'sub, 'j, 'h) GlobalStatics" where
  "call_jumpTracker this m g = g\<lparr>jumpTracker_s := m (get_jumpTracker this g)\<rparr>"

text \<open>
  The getter of \<^verbatim>\<open>searchStatePrevious\<close> hands out the static array itself, not a copy: a
  caller can change the list in place through a method of the array,
  \<^verbatim>\<open>globalState.searchStatePrevious.m(...)\<close>, as \<^verbatim>\<open>load\<close> does with \<^verbatim>\<open>push\<close>. The method is the
  parameter \<open>m\<close>, a function on the list.
\<close>

definition mutate_searchStatePrevious ::
  "GlobalState \<Rightarrow> (SearchState list \<Rightarrow> SearchState list) \<Rightarrow> ('r, 'sub, 'j, 'h) GlobalStatics
     \<Rightarrow> ('r, 'sub, 'j, 'h) GlobalStatics" where
  "mutate_searchStatePrevious this m g =
     g\<lparr>searchStatePrevious_s := m (get_searchStatePrevious this g)\<rparr>"

subsection \<open>\<^verbatim>\<open>load\<close> and \<^verbatim>\<open>addNewSearchHistoryItem\<close>\<close>

text \<open>
  The class \<^verbatim>\<open>SearchHistory\<close> is not among the sources. \<open>loaded\<close> is the object that
  \<^verbatim>\<open>new SearchHistory()\<close> followed by its \<^verbatim>\<open>load()\<close> yields, \<open>entries\<close> is its \<^verbatim>\<open>get()\<close>
  and \<open>add\<close> its \<^verbatim>\<open>add(searchString)\<close>.
\<close>

definition loadedSearchState :: "string \<Rightarrow> SearchState" where
  "loadedSearchState val =
     \<lparr> searchDirection = Forward, searchStartPosition = (0, 0), searchString = val,
       searchOptions = None, searchMode = Normal \<rparr>"

text \<open>
  \<^verbatim>\<open>this.searchStatePrevious.push(...)\<close> reads the static array through the getter and
  pushes onto that very array, once for each entry and in their order.
\<close>

definition load ::
  "('h \<Rightarrow> string list) \<Rightarrow> 'h \<Rightarrow> GlobalState \<Rightarrow> ('r, 'sub, 'j, 'h) GlobalStatics
     \<Rightarrow> ('r, 'sub, 'j, 'h) GlobalStatics" where
  "load entries loaded this g =
     (case searchHistory_s g of
        None \<Rightarrow>
          foldl (\<lambda>g' val. g'\<lparr>searchStatePrevious_s :=
                   get_searchStatePrevious this g' @ [loadedSearchState val]\<rparr>)
            (g\<lparr>searchHistory_s := Some loaded\<rparr>) (entries loaded)
      | Some _ \<Rightarrow> g)"

definition addNewSearchHistoryItem ::
  "(string \<Rightarrow> 'h \<Rightarrow> 'h) \<Rightarrow> GlobalState \<Rightarrow> string \<Rightarrow> ('r, 'sub, 'j, 'h) GlobalStatics
     \<Rightarrow> ('r, 'sub, 'j, 'h) GlobalStatics" where
  "addNewSearchHistoryItem add this s g =
     (case searchHistory_s g of
        None \<Rightarrow> g
      | Some h \<Rightarrow> g\<lparr>searchHistory_s := Some (add s h)\<rparr>)"

subsection \<open>Sequences of operations\<close>

text \<open>
  Every operation of the class that can change a static field, as a value: the setters,
  \<^verbatim>\<open>load\<close>, \<^verbatim>\<open>addNewSearchHistoryItem\<close>, and a method called on the object that a getter
  hands out (the list of previous search states, the jump tracker).
\<close>

datatype ('r, 'sub, 'j, 'h) GlobalStateOp =
  SetSearchStatePrevious "SearchState list"
  | MutateSearchStatePrevious "SearchState list \<Rightarrow> SearchState list"
  | Load 'h
  | AddNewSearchHistoryItem string
  | SetPreviousFullAction "'r option"
  | SetSubstituteState "'sub option"
  | SetSearchState "SearchState option"
  | SetSearchStateIndex int
  | SetHl bool
  | CallJumpTracker "'j \<Rightarrow> 'j"

fun applyOp ::
  "('h \<Rightarrow> string list) \<Rightarrow> (string \<Rightarrow> 'h \<Rightarrow> 'h) \<Rightarrow> GlobalState \<times> ('r, 'sub, 'j, 'h) GlobalStateOp
     \<Rightarrow> ('r, 'sub, 'j, 'h) GlobalStatics \<Rightarrow> ('r, 'sub, 'j, 'h) GlobalStatics" where
  "applyOp entries add (this, SetSearchStatePrevious states) g =
     set_searchStatePrevious this states g"
| "applyOp entries add (this, MutateSearchStatePrevious m) g =
     mutate_searchStatePrevious this m g"
| "applyOp entries add (this, Load loaded) g = load entries loaded this g"
| "applyOp entries add (this, AddNewSearchHistoryItem s) g =
     addNewSearchHistoryItem add this s g"
| "applyOp entries add (this, SetPreviousFullAction state) g =
     set_previousFullAction this state g"
| "applyOp entries add (this, SetSubstituteState state) g = set_substituteState this state g"
| "applyOp entries add (this, SetSearchState state) g = set_searchState this state g"
| "applyOp entries add (this, SetSearchStateIndex state) g =
     set_searchStateIndex this state g"
| "applyOp entries add (this, SetHl enabled) g = set_hl this enabled g"
| "applyOp entries add (this, CallJumpTracker m) g = call_jumpTracker this m g"

text \<open>A run: each operation through the instance it is paired with, left to right.\<close>

definition applyOps ::
  "('h \<Rightarrow> string list) \<Rightarrow> (string \<Rightarrow> 'h \<Rightarrow> 'h)
     \<Rightarrow> (GlobalState \<times> ('r, 'sub, 'j, 'h) GlobalStateOp) list
     \<Rightarrow> ('r, 'sub, 'j, 'h) GlobalStatics \<Rightarrow> ('r, 'sub, 'j, 'h) GlobalStatics" where
  "applyOps entries add ops g = foldl (\<lambda>g' op. applyOp entries add op g') g ops"

section \<open>Errors (\<^verbatim>\<open>src/error.ts\<close>)\<close>

















section \<open>The extension's event and command handlers (\<^verbatim>\<open>src/extension.ts\<close>)\<close>

subsection \<open>Document changes\<close>

record Range =
  rangeStartLine :: nat
  rangeStartCharacter :: nat
  rangeEndLine :: nat
  rangeEndCharacter :: nat

record ContentChange =
  changeRange :: Range
  changeText :: string

text \<open>
  The event: the file name of its document, the changes, and the two flags of the document
  that the timer's callback reads, \<^verbatim>\<open>isDirty\<close> and \<^verbatim>\<open>isUntitled\<close>, as they are when the
  callback runs.
\<close>

record TextDocumentChangeEvent =
  documentFileName :: string
  documentIsDirty :: bool
  documentIsUntitled :: bool
  contentChanges :: "ContentChange list"

text \<open>
  What the handler reads and writes of a \<^verbatim>\<open>ModeHandler\<close>: the mode and the file name of its
  \<^verbatim>\<open>vimState\<close>, and \<^verbatim>\<open>historyTracker.currentContentChanges\<close>, which may be \<^verbatim>\<open>undefined\<close>.
\<close>

record ModeHandler =
  currentMode :: ModeName
  identityFileName :: string
  currentContentChanges :: "ContentChange list option"

text \<open>
  Calls into collaborators whose code is elsewhere are recorded as effects, in the order
  the handlers make them. A task is a closure handed to \<^verbatim>\<open>taskQueue.enqueueTask\<close>, named
  after the handler that builds it.
\<close>

datatype 'args Task =
  TypeTask 'args
  | ReplacePreviousCharTask 'args
  | CompositionStartTask
  | CompositionEndTask
  | RemapTask 'args
  | KeyEventTask string

datatype 'args Effect =
  ExecuteCommand string 'args
  | EnqueueTask "'args Task"
  | GetAndUpdateModeHandler
  | HandleKeyEvent string
  | SetContext string bool
  | CompositionStateReset
  | ModeHandlerMapClear
  | PromptAndRun
  | UpdateView
  | HandleTextDeleted string Range
  | HandleTextAdded string Range string
  | ConsoleWarn string
  | SetTimeout

definition textWasDeleted :: "TextDocumentChangeEvent \<Rightarrow> bool" where
  "textWasDeleted event =
     (case contentChanges event of
        [c] \<Rightarrow> changeText c = [] \<and> rangeStartLine (changeRange c) \<noteq> rangeEndLine (changeRange c)
      | _ \<Rightarrow> False)"

definition textWasAdded :: "TextDocumentChangeEvent \<Rightarrow> bool" where
  "textWasAdded event =
     (case contentChanges event of
        [c] \<Rightarrow> (changeText c = [CHR 0x0A] \<or> changeText c = [CHR 0x0D, CHR 0x0A])
               \<and> rangeStartLine (changeRange c) = rangeEndLine (changeRange c)
      | _ \<Rightarrow> False)"

text \<open>
  \<^verbatim>\<open>contentChangeHandler\<close>: the argument may be missing (in a test with no mock handler);
  the changes are appended only when the handler is in Insert mode.
\<close>

definition contentChangeHandler ::
  "TextDocumentChangeEvent \<Rightarrow> ModeHandler option \<Rightarrow> ModeHandler option \<times> 'args Effect list" where
  "contentChangeHandler event modeHandler =
     (case modeHandler of
        None \<Rightarrow> (None, [ConsoleWarn ''No mode handler found''])
      | Some mh \<Rightarrow>
          if currentMode mh = Insert
          then (Some (mh\<lparr>currentContentChanges :=
                   Some ((case currentContentChanges mh of None \<Rightarrow> [] | Some cs \<Rightarrow> cs)
                           @ contentChanges event)\<rparr>), [])
          else (Some mh, []))"

text \<open>
  The state the document-change handler works on: the flag of the configuration, the two
  fields of \<^verbatim>\<open>Globals\<close>, and the handlers that \<^verbatim>\<open>ModeHandlerMap.getAll()\<close> returns.
\<close>

record Workspace =
  disableExtension :: bool
  isTesting :: bool
  mockModeHandler :: "ModeHandler option"
  modeHandlers :: "ModeHandler list"

definition jumpTrackerEffects :: "TextDocumentChangeEvent \<Rightarrow> 'args Effect list" where
  "jumpTrackerEffects event =
     (if textWasDeleted event
      then [HandleTextDeleted (documentFileName event) (changeRange (hd (contentChanges event)))]
      else if textWasAdded event
      then [HandleTextAdded (documentFileName event) (changeRange (hd (contentChanges event)))
              (changeText (hd (contentChanges event)))]
      else [])"

text \<open>
  The body of the listener of \<^verbatim>\<open>onDidChangeTextDocument\<close>, up to its last statement, which
  sets a timer: the effect \<open>SetTimeout\<close>. The callback of the timer is \<open>timeoutCallback\<close>
  below.
\<close>

definition onDidChangeTextDocument ::
  "TextDocumentChangeEvent \<Rightarrow> Workspace \<Rightarrow> Workspace \<times> 'args Effect list" where
  "onDidChangeTextDocument event w =
     (if disableExtension w then (w, [])
      else
        if isTesting w
        then (case contentChangeHandler event (mockModeHandler w) of
                (mh', effs) \<Rightarrow>
                  (w\<lparr>mockModeHandler := mh'\<rparr>, jumpTrackerEffects event @ effs @ [SetTimeout]))
        else
          (w\<lparr>modeHandlers :=
               map (\<lambda>mh. if identityFileName mh = documentFileName event
                         then the (fst (contentChangeHandler event (Some mh)
                                          :: ModeHandler option \<times> 'args Effect list))
                         else mh)
                 (modeHandlers w)\<rparr>,
           jumpTrackerEffects event @ [SetTimeout]))"

text \<open>
  \<^verbatim>\<open>handleContentChangedFromDisk\<close>: \<^verbatim>\<open>historyTracker.clear()\<close> on every mode handler of the
  file, whatever its mode. The body of \<^verbatim>\<open>clear\<close> is elsewhere: the parameter \<open>clear\<close>.
\<close>

definition handleContentChangedFromDisk ::
  "(ModeHandler \<Rightarrow> ModeHandler) \<Rightarrow> string \<Rightarrow> Workspace \<Rightarrow> Workspace" where
  "handleContentChangedFromDisk clear fileName w =
     w\<lparr>modeHandlers :=
         map (\<lambda>mh. if identityFileName mh = fileName then clear mh else mh) (modeHandlers w)\<rparr>"

text \<open>The callback that the listener hands to \<^verbatim>\<open>setTimeout\<close>.\<close>

definition timeoutCallback ::
  "(ModeHandler \<Rightarrow> ModeHandler) \<Rightarrow> TextDocumentChangeEvent \<Rightarrow> Workspace \<Rightarrow> Workspace" where
  "timeoutCallback clear event w =
     (if \<not> documentIsDirty event \<and> \<not> documentIsUntitled event \<and> contentChanges event \<noteq> []
      then handleContentChangedFromDisk clear (documentFileName event) w
      else w)"

text \<open>
  The listener and then its timer: the body, and the callback when the body has set the
  timer (it has not when the extension is disabled).
\<close>

definition documentChanged ::
  "(ModeHandler \<Rightarrow> ModeHandler) \<Rightarrow> TextDocumentChangeEvent \<Rightarrow> Workspace
     \<Rightarrow> Workspace \<times> 'args Effect list" where
  "documentChanged clear event w =
     (case onDidChangeTextDocument event w of
        (w', effects) \<Rightarrow>
          (if SetTimeout \<in> set effects then timeoutCallback clear event w' else w', effects))"

subsection \<open>Commands\<close>

text \<open>
  What the command wrappers read of the host: the flag of the configuration and the active
  editor, which may be \<^verbatim>\<open>undefined\<close>; of the editor, the URI of its document, \<open>None\<close> when
  the editor has no document.
\<close>

record Extension =
  extensionDisabled :: bool
  activeTextEditor :: "string option option"

text \<open>\<^verbatim>\<open>overrideCommand\<close>: the handler it registers for \<open>command\<close>, run on \<open>args\<close>.\<close>

definition overrideCommand ::
  "string \<Rightarrow> ('args \<Rightarrow> Extension \<Rightarrow> Extension \<times> 'args Effect list) \<Rightarrow> 'args \<Rightarrow> Extension
     \<Rightarrow> Extension \<times> 'args Effect list" where
  "overrideCommand command callback args x =
     (if extensionDisabled x then (x, [ExecuteCommand (''default:'' @ command) args])
      else
        (case activeTextEditor x of
           None \<Rightarrow> (x, [])
         | Some document \<Rightarrow>
             if document = Some ''debug:input''
             then (x, [ExecuteCommand (''default:'' @ command) args])
             else callback args x))"

text \<open>\<^verbatim>\<open>registerCommand\<close>: the handler it registers, run on \<open>args\<close>.\<close>

definition registerCommand ::
  "('args \<Rightarrow> Extension \<Rightarrow> Extension \<times> 'args Effect list) \<Rightarrow> 'args \<Rightarrow> Extension
     \<Rightarrow> Extension \<times> 'args Effect list" where
  "registerCommand callback args x =
     (case activeTextEditor x of
        None \<Rightarrow> (x, [])
      | Some document \<Rightarrow> callback args x)"

definition toggleExtension :: "bool \<Rightarrow> Extension \<Rightarrow> Extension \<times> 'args Effect list" where
  "toggleExtension isDisabled x =
     (case activeTextEditor x of
        None \<Rightarrow> (x, [SetContext ''vim.active'' (\<not> isDisabled)])
      | Some document \<Rightarrow>
          if isDisabled
          then (x, [SetContext ''vim.active'' (\<not> isDisabled), GetAndUpdateModeHandler,
                    HandleKeyEvent ''<ExtensionDisable>'', CompositionStateReset,
                    ModeHandlerMapClear])
          else (x, [SetContext ''vim.active'' (\<not> isDisabled), GetAndUpdateModeHandler,
                    HandleKeyEvent ''<ExtensionEnable>'']))"

text \<open>The module's \<^verbatim>\<open>handleKeyEvent\<close>, the callback of every bound key combination.\<close>

definition handleKeyEvent :: "string \<Rightarrow> Extension \<Rightarrow> Extension \<times> 'args Effect list" where
  "handleKeyEvent key x = (x, [GetAndUpdateModeHandler, EnqueueTask (KeyEventTask key)])"

text \<open>The commands that \<^verbatim>\<open>activate\<close> registers, each with its wrapper and callback.\<close>

definition typeCommand :: "'args \<Rightarrow> Extension \<Rightarrow> Extension \<times> 'args Effect list" where
  "typeCommand = overrideCommand ''type'' (\<lambda>args x. (x, [EnqueueTask (TypeTask args)]))"

definition replacePreviousCharCommand ::
  "'args \<Rightarrow> Extension \<Rightarrow> Extension \<times> 'args Effect list" where
  "replacePreviousCharCommand =
     overrideCommand ''replacePreviousChar''
       (\<lambda>args x. (x, [EnqueueTask (ReplacePreviousCharTask args)]))"

definition compositionStartCommand ::
  "'args \<Rightarrow> Extension \<Rightarrow> Extension \<times> 'args Effect list" where
  "compositionStartCommand =
     overrideCommand ''compositionStart'' (\<lambda>args x. (x, [EnqueueTask CompositionStartTask]))"

definition compositionEndCommand ::
  "'args \<Rightarrow> Extension \<Rightarrow> Extension \<times> 'args Effect list" where
  "compositionEndCommand =
     overrideCommand ''compositionEnd'' (\<lambda>args x. (x, [EnqueueTask CompositionEndTask]))"

definition showQuickpickCmdLineCommand ::
  "'args \<Rightarrow> Extension \<Rightarrow> Extension \<times> 'args Effect list" where
  "showQuickpickCmdLineCommand =
     registerCommand (\<lambda>args x. (x, [GetAndUpdateModeHandler, PromptAndRun, UpdateView]))"

definition remapCommand :: "'args \<Rightarrow> Extension \<Rightarrow> Extension \<times> 'args Effect list" where
  "remapCommand = registerCommand (\<lambda>args x. (x, [EnqueueTask (RemapTask args)]))"

definition toggleVimCommand :: "'args \<Rightarrow> Extension \<Rightarrow> Extension \<times> 'args Effect list" where
  "toggleVimCommand =
     registerCommand
       (\<lambda>args x. toggleExtension (\<not> extensionDisabled x)
                   (x\<lparr>extensionDisabled := \<not> extensionDisabled x\<rparr>))"

definition boundKeyCommand ::
  "string \<Rightarrow> 'args \<Rightarrow> Extension \<Rightarrow> Extension \<times> 'args Effect list" where
  "boundKeyCommand key = registerCommand (\<lambda>args. handleKeyEvent key)"

section \<open>The sort command (\<^verbatim>\<open>src/cmd_line/commands/sort.ts\<close>)\<close>

text \<open>
  A string of the program is a sequence of 16-bit code units; its \<^verbatim>\<open>length\<close> counts them,
  and the default order of \<^verbatim>\<open>Array.prototype.sort\<close> on strings compares them unit by unit,
  a proper prefix first: the lexicographic order of lists of words.
\<close>

type_synonym jsstring = "16 word list"

record ISortCommandArguments =
  reverse :: bool
  ignoreCase :: bool
  unique :: bool

text \<open>A document is the list of its lines, none of which holds a line terminator.\<close>

type_synonym document = "jsstring list"

definition newline :: "16 word" where
  "newline = 0x0A"

text \<open>The \<^verbatim>\<open>for\<close> loop that collects the lines of the range that exist.\<close>

function collectLines :: "document \<Rightarrow> nat \<Rightarrow> nat \<Rightarrow> jsstring list \<Rightarrow> jsstring list" where
  "collectLines doc currentLine endLine originalLines =
     (if currentLine \<le> endLine \<and> currentLine < length doc
      then collectLines doc (Suc currentLine) endLine (originalLines @ [doc ! currentLine])
      else originalLines)"
  by pat_completeness auto
termination
  by (relation "measure (\<lambda>(doc, currentLine, endLine, originalLines). length doc - currentLine)")
    auto

declare collectLines.simps [simp del]

text \<open>
  \<^verbatim>\<open>[...new Set(originalLines)]\<close>: a set keeps its members in the order of their first
  insertion.
\<close>

fun setInsert :: "'a list \<Rightarrow> 'a list \<Rightarrow> 'a list" where
  "setInsert seen [] = seen"
| "setInsert seen (x # xs) =
     (if x \<in> set seen then setInsert seen xs else setInsert (seen @ [x]) xs)"

definition arrayOfSet :: "'a list \<Rightarrow> 'a list" where
  "arrayOfSet xs = setInsert [] xs"

text \<open>
  \<^verbatim>\<open>sort\<close> with a comparator; the sort of the language is stable, so the result is that of
  a stable insertion sort. The comparator of the program is \<^verbatim>\<open>localeCompare\<close>, a function of
  the host: a parameter.
\<close>

fun insertBy :: "('a \<Rightarrow> 'a \<Rightarrow> int) \<Rightarrow> 'a \<Rightarrow> 'a list \<Rightarrow> 'a list" where
  "insertBy cmp x [] = [x]"
| "insertBy cmp x (y # ys) = (if cmp x y \<le> 0 then x # y # ys else y # insertBy cmp x ys)"

definition sortBy :: "('a \<Rightarrow> 'a \<Rightarrow> int) \<Rightarrow> 'a list \<Rightarrow> 'a list" where
  "sortBy cmp xs = foldr (insertBy cmp) xs []"

text \<open>\<^verbatim>\<open>join('\n')\<close>.\<close>

fun joinLines :: "jsstring list \<Rightarrow> jsstring" where
  "joinLines [] = []"
| "joinLines [l] = l"
| "joinLines (l # m # ls) = l @ [newline] @ joinLines (m # ls)"

text \<open>
  Modelled from the spec: the host editor's cutting of an edit's text into lines, at its
  line feeds, is not among the sources.
\<close>

fun splitLines :: "jsstring \<Rightarrow> jsstring list" where
  "splitLines [] = [[]]"
| "splitLines (c # cs) =
     (if c = newline then [] # splitLines cs
      else (case splitLines cs of [] \<Rightarrow> [[c]] | l # ls \<Rightarrow> (c # l) # ls))"

text \<open>
  Modelled from the spec: the host editor's adjustment of a position to the document is
  not among the sources. A line beyond the last is taken as the end of the document and a
  column beyond the end of its line as the end of that line.
\<close>

definition validatePosition :: "document \<Rightarrow> nat \<times> nat \<Rightarrow> nat \<times> nat" where
  "validatePosition doc p =
     (if fst p \<ge> length doc then (length doc - 1, length (last doc))
      else (fst p, min (snd p) (length (doc ! fst p))))"

text \<open>
  Modelled from the spec: \<^verbatim>\<open>TextEditor.replace\<close> (\<^verbatim>\<open>src/textEditor.ts\<close>) is not among the
  sources. It is the \<^verbatim>\<open>applyEdit(range, newText)\<close> of the editor abstraction in section 6
  of the specification: the text from the start of the range to its end is replaced by the
  new text. \<^verbatim>\<open>sortLines\<close> reaches it only with a start that is not after the end.
\<close>

definition replaceRange :: "document \<Rightarrow> Range \<Rightarrow> jsstring \<Rightarrow> document" where
  "replaceRange doc rng text =
     (let s = validatePosition doc (rangeStartLine rng, rangeStartCharacter rng);
          e = validatePosition doc (rangeEndLine rng, rangeEndCharacter rng)
      in take (fst s) doc
           @ splitLines (take (snd s) (doc ! fst s) @ text @ drop (snd e) (doc ! fst e))
           @ drop (Suc (fst e)) doc)"

text \<open>
  \<^verbatim>\<open>sortLines\<close> up to its last statement: the range and the text that it hands to
  \<^verbatim>\<open>TextEditor.replace\<close>. Reading \<^verbatim>\<open>length\<close> of the last element of an empty array throws
  a \<^verbatim>\<open>TypeError\<close>: the result \<open>Inl\<close>.
\<close>

datatype TypeError = TypeError

definition sortLinesEdit ::
  "(jsstring \<Rightarrow> jsstring \<Rightarrow> int) \<Rightarrow> ISortCommandArguments \<Rightarrow> document \<Rightarrow> nat \<Rightarrow> nat
     \<Rightarrow> TypeError + Range \<times> jsstring" where
  "sortLinesEdit localeCompare arguments doc startLine endLine =
     (let originalLines = collectLines doc startLine endLine [];
          originalLines = (if unique arguments then arrayOfSet originalLines else originalLines)
      in if originalLines = [] then Inl TypeError
         else
           let lastLineLength = length (last originalLines);
               sortedLines = (if ignoreCase arguments then sortBy localeCompare originalLines
                              else sort originalLines);
               sortedLines = (if reverse arguments then rev sortedLines else sortedLines);
               sortedContent = joinLines sortedLines
           in Inr (\<lparr>rangeStartLine = startLine, rangeStartCharacter = 0,
                    rangeEndLine = endLine, rangeEndCharacter = lastLineLength\<rparr>,
                   sortedContent))"

text \<open>\<^verbatim>\<open>sortLines\<close>: the document after the edit.\<close>

definition sortLines ::
  "(jsstring \<Rightarrow> jsstring \<Rightarrow> int) \<Rightarrow> ISortCommandArguments \<Rightarrow> document \<Rightarrow> nat \<Rightarrow> nat
     \<Rightarrow> TypeError + document" where
  "sortLines localeCompare arguments doc startLine endLine =
     (case sortLinesEdit localeCompare arguments doc startLine endLine of
        Inl err \<Rightarrow> Inl err
      | Inr (rng, sortedContent) \<Rightarrow> Inr (replaceRange doc rng sortedContent))"

section \<open>The key-interpretation engine of the specification\<close>

text \<open>
  Modelled from the spec: the remapper, the action tables and the mode handler
  (\<^verbatim>\<open>src/configuration/remapper.ts\<close>, \<^verbatim>\<open>src/actions\<close>, \<^verbatim>\<open>src/mode/modeHandler.ts\<close>) are not
  among the sources; only a test of them and their callers are. The definitions of this
  section follow sections 4.1 to 4.3, 4.5, 5 and 7 of the specification. Counts, register
  prefixes and wildcard slots are not modelled.
\<close>

type_synonym KeyToken = string

text \<open>
  Modelled from the spec: a remap entry of section 3, without its flags: the source and
  the target key sequences and the modes it applies in.
\<close>

record RemapEntry =
  remapSource :: "KeyToken list"
  remapTarget :: "KeyToken list"
  remapModes :: "ModeName list"

text \<open>Modelled from the spec: the resolutions of section 4.1.\<close>

datatype Resolution = Pending | Resolved "KeyToken list" | Invalid

text \<open>Modelled from the spec: whether a remap entry is of the mode.\<close>

definition remapApplies :: "ModeName \<Rightarrow> RemapEntry \<Rightarrow> bool" where
  "remapApplies m r = (m \<in> set (remapModes r))"

text \<open>
  Modelled from the spec: section 4.1, \<^verbatim>\<open>feed(token, mode) -> Resolution\<close>, on the buffer
  that already holds the new token. Step 1: the buffer equals the source of an entry of
  the mode and is a strict prefix of no entry: the target. Step 2: the buffer is a strict
  prefix of an entry: pending. Step 3: otherwise the buffer itself, for the Action Matcher.
  An empty buffer is never resolved.
\<close>

definition feed :: "RemapEntry list \<Rightarrow> KeyToken list \<Rightarrow> ModeName \<Rightarrow> Resolution" where
  "feed remaps buffer m =
     (if buffer = [] then Invalid
      else if list_ex (\<lambda>r. remapApplies m r \<and> strict_prefix buffer (remapSource r)) remaps
      then Pending
      else (case find (\<lambda>r. remapApplies m r \<and> remapSource r = buffer) remaps of
              Some r \<Rightarrow> Resolved (remapTarget r)
            | None \<Rightarrow> Resolved buffer))"

text \<open>
  Modelled from the spec: an action definition of section 3: the key pattern, the modes
  and the identifier of the action.
\<close>

record 'a ActionDefinition =
  keyPattern :: "KeyToken list"
  actionModes :: "ModeName list"
  actionId :: 'a

text \<open>Modelled from the spec: the match results of section 4.2.\<close>

datatype 'a MatchResult = CompleteAction 'a | AmbiguousPrefix | NoMatch

text \<open>
  Modelled from the spec: section 4.2, the match of a buffer against the grammar of the
  mode: an exact match is a complete action, a strict prefix of an entry is ambiguous,
  anything else matches nothing.
\<close>

definition matchAction ::
  "'a ActionDefinition list \<Rightarrow> KeyToken list \<Rightarrow> ModeName \<Rightarrow> 'a MatchResult" where
  "matchAction grammar buffer m =
     (case find (\<lambda>d. m \<in> set (actionModes d) \<and> keyPattern d = buffer) grammar of
        Some d \<Rightarrow> CompleteAction (actionId d)
      | None \<Rightarrow>
          if list_ex (\<lambda>d. m \<in> set (actionModes d) \<and> strict_prefix buffer (keyPattern d)) grammar
          then AmbiguousPrefix else NoMatch)"

text \<open>
  Modelled from the spec: the engine of one editor instance: the mode, the recorded key buffer, whether the
  disambiguation timer runs, the stream of resolved actions, and the status message shown
  to the user.
\<close>

record 'a Engine =
  mode :: ModeName
  recordedKeys :: "KeyToken list"
  timerRunning :: bool
  resolvedActions :: "'a list"
  statusMessage :: "string option"

text \<open>
  Modelled from the spec: the hand-over of a buffer to the Action Matcher and of a
  complete action to the Mode State Machine, whose transition function is the parameter
  \<open>transition\<close>. A resolved action clears the buffer; no match clears it too and reports
  nothing; an ambiguous prefix waits on the timer.
\<close>

definition dispatchKeys ::
  "'a ActionDefinition list \<Rightarrow> ('a \<Rightarrow> ModeName \<Rightarrow> ModeName) \<Rightarrow> KeyToken list \<Rightarrow> 'a Engine
     \<Rightarrow> 'a Engine" where
  "dispatchKeys grammar transition keys e =
     (case matchAction grammar keys (mode e) of
        CompleteAction a \<Rightarrow>
          e\<lparr>mode := transition a (mode e), recordedKeys := [], timerRunning := False,
            resolvedActions := resolvedActions e @ [a]\<rparr>
      | AmbiguousPrefix \<Rightarrow> e\<lparr>recordedKeys := keys, timerRunning := True\<rparr>
      | NoMatch \<Rightarrow> e\<lparr>recordedKeys := [], timerRunning := False\<rparr>)"

text \<open>Modelled from the spec: what the engine receives: a key, or the timer firing.\<close>

datatype KeyEvent = Key KeyToken | TimerFired

text \<open>
  Modelled from the spec: one step of the engine. A key joins the buffer and the buffer is
  fed to the Remap Resolver; the timer firing on a waiting buffer resolves the buffer as it
  is, by step 3 of section 4.1, and a buffer that is still no complete action is dropped.
\<close>

definition engineStep ::
  "RemapEntry list \<Rightarrow> 'a ActionDefinition list \<Rightarrow> ('a \<Rightarrow> ModeName \<Rightarrow> ModeName) \<Rightarrow> 'a Engine
     \<Rightarrow> KeyEvent \<Rightarrow> 'a Engine" where
  "engineStep remaps grammar transition e ev =
     (case ev of
        Key token \<Rightarrow>
          (case feed remaps (recordedKeys e @ [token]) (mode e) of
             Pending \<Rightarrow> e\<lparr>recordedKeys := recordedKeys e @ [token], timerRunning := True\<rparr>
           | Resolved keys \<Rightarrow> dispatchKeys grammar transition keys e
           | Invalid \<Rightarrow> e\<lparr>recordedKeys := [], timerRunning := False\<rparr>)
      | TimerFired \<Rightarrow>
          if timerRunning e
          then (case matchAction grammar (recordedKeys e) (mode e) of
                  CompleteAction a \<Rightarrow> dispatchKeys grammar transition (recordedKeys e) e
                | _ \<Rightarrow> e\<lparr>recordedKeys := [], timerRunning := False\<rparr>)
          else e)"

text \<open>Modelled from the spec: the engine on a sequence of events, one after the other.\<close>

definition engineRun ::
  "RemapEntry list \<Rightarrow> 'a ActionDefinition list \<Rightarrow> ('a \<Rightarrow> ModeName \<Rightarrow> ModeName) \<Rightarrow> 'a Engine
     \<Rightarrow> KeyEvent list \<Rightarrow> 'a Engine" where
  "engineRun remaps grammar transition e evs = foldl (engineStep remaps grammar transition) e evs"

text \<open>
  Modelled from the spec: the two actions of the example of section 8, the Escape action
  and the downward motion.
\<close>

datatype ExampleAction = EscapeAction | MoveDownAction

text \<open>Modelled from the spec: the modes of section 3, as a list.\<close>

definition allModes :: "ModeName list" where
  "allModes = [Normal, Insert, Visual, VisualLine, VisualBlock, Replace, OperatorPending,
               SearchInProgress, CommandLine, Disabled]"

text \<open>
  Modelled from the spec: the grammar of the example: the downward motion on \<^verbatim>\<open>j\<close> in
  Normal mode and the Escape action on \<^verbatim>\<open><Esc>\<close> in every mode.
\<close>

definition exampleGrammar :: "ExampleAction ActionDefinition list" where
  "exampleGrammar =
     [\<lparr>keyPattern = [''j''], actionModes = [Normal], actionId = MoveDownAction\<rparr>,
      \<lparr>keyPattern = [''<Esc>''], actionModes = allModes, actionId = EscapeAction\<rparr>]"

text \<open>
  Modelled from the spec: the transitions of section 4.3 for the two actions: the Escape
  action leads to Normal mode, a motion keeps the mode.
\<close>

fun exampleTransition :: "ExampleAction \<Rightarrow> ModeName \<Rightarrow> ModeName" where
  "exampleTransition EscapeAction m = Normal"
| "exampleTransition MoveDownAction m = m"

text \<open>Modelled from the spec: the remap table of the example, \<^verbatim>\<open>jj\<close> to \<^verbatim>\<open><Esc>\<close>.\<close>

definition exampleRemaps :: "RemapEntry list" where
  "exampleRemaps =
     [\<lparr>remapSource = [''j'', ''j''], remapTarget = [''<Esc>''], remapModes = [Normal]\<rparr>]"

text \<open>
  Modelled from the spec: the engine at its start: Normal mode (section 4.3), an empty
  buffer, no timer, nothing resolved, no message.
\<close>

definition initialEngine :: "'a Engine" where
  "initialEngine =
     \<lparr>mode = Normal, recordedKeys = [], timerRunning = False, resolvedActions = [],
      statusMessage = None\<rparr>"








section \<open>Properties of the global state\<close>

lemma load_fold_statics:
  "foldl (\<lambda>g' val. g'\<lparr>searchStatePrevious_s :=
       get_searchStatePrevious this g' @ [loadedSearchState val]\<rparr>) g vals =
   g\<lparr>searchStatePrevious_s := searchStatePrevious_s g @ map loadedSearchState vals\<rparr>"
  by (induction vals arbitrary: g) (simp_all add: get_searchStatePrevious_def)

lemma load_unloaded:
  "searchHistory_s g = None \<Longrightarrow>
   load entries loaded this g =
     g\<lparr>searchHistory_s := Some loaded,
       searchStatePrevious_s := searchStatePrevious_s g @ map loadedSearchState (entries loaded)\<rparr>"
  by (simp add: load_def load_fold_statics)

lemma load_loaded: "searchHistory_s g = Some h \<Longrightarrow> load entries loaded this g = g"
  by (simp add: load_def)

lemma searchHistory_after_load: "searchHistory_s (load entries loaded this g) \<noteq> None"
  by (cases "searchHistory_s g") (simp_all add: load_unloaded load_loaded)

text \<open>
  Claim C5. The fields of the global state are shared by the whole process: what one
  instance of \<^verbatim>\<open>GlobalState\<close> writes, any other instance reads. For the last full action,
  the substitute state, the search state, the search index and the highlight flag the
  value read through \<open>j\<close> is the value written through \<open>i\<close>; for the previous search
  states it is the list with the written states appended; for the jump tracker it is the
  tracker after the call made through \<open>i\<close>; and in any state both instances read the same.
\<close>

theorem globalState_fields_shared:
  "get_previousFullAction j (set_previousFullAction i a g) = a
   \<and> get_substituteState j (set_substituteState i sub g) = sub
   \<and> get_searchState j (set_searchState i st g) = st
   \<and> get_searchStateIndex j (set_searchStateIndex i n g) = n
   \<and> get_hl j (set_hl i b g) = b
   \<and> get_searchStatePrevious j (set_searchStatePrevious i states g)
       = get_searchStatePrevious i g @ states
   \<and> get_jumpTracker j (call_jumpTracker i m g) = m (get_jumpTracker i g)
   \<and> get_searchStatePrevious j (load entries loaded i g)
       = get_searchStatePrevious i (load entries loaded i g)
   \<and> get_previousFullAction j g = get_previousFullAction i g
   \<and> get_substituteState j g = get_substituteState i g
   \<and> get_jumpTracker j g = get_jumpTracker i g
   \<and> get_searchStatePrevious j g = get_searchStatePrevious i g"
  by (simp add: get_previousFullAction_def set_previousFullAction_def
      get_substituteState_def set_substituteState_def get_searchState_def set_searchState_def
      get_searchStateIndex_def set_searchStateIndex_def get_hl_def set_hl_def
      get_searchStatePrevious_def set_searchStatePrevious_def get_jumpTracker_def
      call_jumpTracker_def)

lemma loads_after_load:
  "searchHistory_s g \<noteq> None \<Longrightarrow>
   foldl (\<lambda>g' c. load entries (snd c) (fst c) g') g calls = g"
  by (induction calls arbitrary: g) (auto simp: load_loaded)

text \<open>
  Claim C8. \<^verbatim>\<open>load\<close> is idempotent: after one call, a further call through any instance
  and with any persisted history, and any number of such calls, leave every field as it
  is; from the initial statics the list of previous search states holds the persisted
  entries of the first call, once.
\<close>

theorem load_idempotent:
  fixes g :: "('r, 'sub, 'j, 'h) GlobalStatics" and tracker :: 'j
  shows
  "load entries loaded2 j (load entries loaded1 i g) = load entries loaded1 i g
   \<and> foldl (\<lambda>g' c. load entries (snd c) (fst c) g') (load entries loaded1 i g) calls
       = load entries loaded1 i g
   \<and> searchStatePrevious_s
        (foldl (\<lambda>g' c. load entries (snd c) (fst c) g')
           (load entries loaded1 i (initialStatics tracker :: ('r, 'sub, 'j, 'h) GlobalStatics))
           calls)
       = map loadedSearchState (entries loaded1)"
proof -
  have loaded: "searchHistory_s (load entries loaded1 i g') \<noteq> None"
    for g' :: "('r, 'sub, 'j, 'h) GlobalStatics"
    by (rule searchHistory_after_load)
  have one: "load entries loaded2 j (load entries loaded1 i g) = load entries loaded1 i g"
    using loaded [of g] by (auto simp: load_loaded)
  have many: "foldl (\<lambda>g' c. load entries (snd c) (fst c) g') (load entries loaded1 i g') calls
       = load entries loaded1 i g'" for g' :: "('r, 'sub, 'j, 'h) GlobalStatics"
    using loaded [of g'] by (rule loads_after_load)
  have first: "searchStatePrevious_s
       (load entries loaded1 i (initialStatics tracker :: ('r, 'sub, 'j, 'h) GlobalStatics))
       = map loadedSearchState (entries loaded1)"
    by (simp add: load_unloaded initialStatics_def)
  show ?thesis using one many [of g] many [of "initialStatics tracker"] first by simp
qed

lemma applyOp_prefix:
  assumes "\<forall>m. snd op = MutateSearchStatePrevious m \<longrightarrow> (\<forall>xs. prefix xs (m xs))"
  shows "prefix (searchStatePrevious_s g) (searchStatePrevious_s (applyOp entries add op g))"
proof (cases op)
  case (Pair this o')
  show ?thesis
  proof (cases o')
    case (Load h)
    then show ?thesis using Pair
      by (cases "searchHistory_s g") (simp_all add: load_unloaded load_loaded)
  next
    case (AddNewSearchHistoryItem s)
    then show ?thesis using Pair
      by (simp add: addNewSearchHistoryItem_def split: option.splits)
  next
    case (MutateSearchStatePrevious m)
    then show ?thesis using Pair assms
      by (simp add: mutate_searchStatePrevious_def get_searchStatePrevious_def)
  qed (simp_all add: Pair set_searchStatePrevious_def set_previousFullAction_def
      set_substituteState_def set_searchState_def set_searchStateIndex_def set_hl_def
      call_jumpTracker_def)
qed

lemma applyOps_prefix:
  assumes "\<forall>op \<in> set ops. \<forall>m. snd op = MutateSearchStatePrevious m \<longrightarrow> (\<forall>xs. prefix xs (m xs))"
  shows "prefix (searchStatePrevious_s g) (searchStatePrevious_s (applyOps entries add ops g))"
  using assms unfolding applyOps_def
proof (induction ops arbitrary: g)
  case Nil
  show ?case by simp
next
  case (Cons op ops)
  have "prefix (searchStatePrevious_s g) (searchStatePrevious_s (applyOp entries add op g))"
    using Cons.prems by (intro applyOp_prefix) simp
  also have "prefix \<dots> (searchStatePrevious_s
       (foldl (\<lambda>g' op. applyOp entries add op g') (applyOp entries add op g) ops))"
    using Cons.prems by (intro Cons.IH) simp
  finally show ?case by simp
qed

text \<open>
  Claim C9, as stated, fails: the getter hands out the static array, and a \<^verbatim>\<open>splice(0, 1)\<close>
  called on it through one instance removes the first of two previous search states; the
  other instance then reads the second alone, and the list before is no prefix of it.
\<close>

theorem searchStatePrevious_entry_removed_through_getter:
  "get_searchStatePrevious (GlobalState 2)
     (applyOps (\<lambda>h. h) (\<lambda>s h. h @ [s])
        [(GlobalState 1, SetSearchStatePrevious [loadedSearchState ''x'', loadedSearchState ''y'']),
         (GlobalState 1, MutateSearchStatePrevious (drop 1))]
        (initialStatics () :: (unit, unit, unit, string list) GlobalStatics))
   = [loadedSearchState ''y'']
   \<and> \<not> prefix
        (get_searchStatePrevious (GlobalState 1)
           (applyOps (\<lambda>h. h) (\<lambda>s h. h @ [s])
              [(GlobalState 1,
                SetSearchStatePrevious [loadedSearchState ''x'', loadedSearchState ''y''])]
              (initialStatics () :: (unit, unit, unit, string list) GlobalStatics)))
        (get_searchStatePrevious (GlobalState 2)
           (applyOps (\<lambda>h. h) (\<lambda>s h. h @ [s])
              [(GlobalState 1,
                SetSearchStatePrevious [loadedSearchState ''x'', loadedSearchState ''y'']),
               (GlobalState 1, MutateSearchStatePrevious (drop 1))]
              (initialStatics () :: (unit, unit, unit, string list) GlobalStatics)))"
  by (simp add: applyOps_def set_searchStatePrevious_def mutate_searchStatePrevious_def
      get_searchStatePrevious_def initialStatics_def loadedSearchState_def)

text \<open>
  Claim C9, amended. The setter appends what it is given, and assigning the empty list
  changes nothing. After any sequence of operations of \<^verbatim>\<open>GlobalState\<close>, through any
  instances, in which every method called on the array that the getter hands out only
  extends the array (as the \<^verbatim>\<open>push\<close> of \<^verbatim>\<open>load\<close> does), the list before is a prefix of the
  list after. What a method does to the array through one instance is what every instance
  reads.
\<close>

theorem searchStatePrevious_only_grows:
  assumes "\<forall>op \<in> set ops. \<forall>m. snd op = MutateSearchStatePrevious m \<longrightarrow> (\<forall>xs. prefix xs (m xs))"
  shows "prefix (get_searchStatePrevious i g)
     (get_searchStatePrevious j (applyOps entries add ops g))
   \<and> get_searchStatePrevious j (set_searchStatePrevious i states g)
       = get_searchStatePrevious i g @ states
   \<and> set_searchStatePrevious i [] g = g
   \<and> get_searchStatePrevious j (mutate_searchStatePrevious i m' g)
       = m' (get_searchStatePrevious i g)"
  using applyOps_prefix [OF assms, of g entries add]
  by (simp add: get_searchStatePrevious_def set_searchStatePrevious_def
      mutate_searchStatePrevious_def)

theorem searchStatePrevious_only_grows_witness:
  "prefix [loadedSearchState ''x'']
     (get_searchStatePrevious (GlobalState 2)
        (applyOps (\<lambda>h. h) (\<lambda>s h. h @ [s])
           [(GlobalState 1, Load [''a'', ''b'']),
            (GlobalState 2, SetSearchStatePrevious [loadedSearchState ''y'']),
            (GlobalState 1, MutateSearchStatePrevious (\<lambda>xs. xs @ [loadedSearchState ''z''])),
            (GlobalState 2, AddNewSearchHistoryItem ''c'')]
           (set_searchStatePrevious (GlobalState 1) [loadedSearchState ''x'']
              (initialStatics () :: (unit, unit, unit, string list) GlobalStatics))))"
proof -
  let ?ops = "[(GlobalState 1, Load [''a'', ''b'']),
            (GlobalState 2, SetSearchStatePrevious [loadedSearchState ''y'']),
            (GlobalState 1, MutateSearchStatePrevious (\<lambda>xs. xs @ [loadedSearchState ''z''])),
            (GlobalState 2, AddNewSearchHistoryItem ''c'')]
          :: (GlobalState \<times> (unit, unit, unit, string list) GlobalStateOp) list"
  let ?g = "set_searchStatePrevious (GlobalState 1) [loadedSearchState ''x'']
              (initialStatics () :: (unit, unit, unit, string list) GlobalStatics)"
  have ext: "\<forall>op \<in> set ?ops. \<forall>m. snd op = MutateSearchStatePrevious m \<longrightarrow> (\<forall>xs. prefix xs (m xs))"
    by auto
  have "get_searchStatePrevious (GlobalState 1) ?g = [loadedSearchState ''x'']"
    by (simp add: get_searchStatePrevious_def set_searchStatePrevious_def initialStatics_def)
  then show ?thesis
    using searchStatePrevious_only_grows [OF ext, of "GlobalState 1" ?g "GlobalState 2"
        "\<lambda>h. h" "\<lambda>s h. h @ [s]"]
    by simp
qed

section \<open>Properties of the errors and of the engine of the specification\<close>











text \<open>
  Claim C6. With the remap of \<^verbatim>\<open>jj\<close> to \<^verbatim>\<open><Esc>\<close>, from Normal mode with an empty buffer:
  after one \<^verbatim>\<open>j\<close> the engine waits with \<^verbatim>\<open>j\<close> in the buffer and the timer running; a second
  \<^verbatim>\<open>j\<close> resolves to the Escape action, with the buffer empty and the mode Normal; the timer
  firing instead resolves the lone \<^verbatim>\<open>j\<close> to the downward motion.
\<close>

theorem remap_jj_scenario:
  "engineRun exampleRemaps exampleGrammar exampleTransition initialEngine [Key ''j'']
     = initialEngine\<lparr>recordedKeys := [''j''], timerRunning := True\<rparr>
   \<and> engineRun exampleRemaps exampleGrammar exampleTransition initialEngine
       [Key ''j'', Key ''j'']
     = initialEngine\<lparr>resolvedActions := [EscapeAction]\<rparr>
   \<and> engineRun exampleRemaps exampleGrammar exampleTransition initialEngine
       [Key ''j'', TimerFired]
     = initialEngine\<lparr>resolvedActions := [MoveDownAction]\<rparr>
   \<and> mode (initialEngine :: ExampleAction Engine) = Normal
   \<and> recordedKeys (initialEngine :: ExampleAction Engine) = []"
  by (simp add: engineRun_def engineStep_def feed_def dispatchKeys_def matchAction_def
      exampleRemaps_def exampleGrammar_def allModes_def remapApplies_def initialEngine_def)

section \<open>Properties of the extension's handlers\<close>

text \<open>
  Claim C1, as stated, fails: with the extension enabled, a change of \<^verbatim>\<open>a.ts\<close> reported
  while the mode handler of \<^verbatim>\<open>a.ts\<close> is in Normal mode leaves that handler's
  \<^verbatim>\<open>currentContentChanges\<close> undefined, after the body of the listener and after its timer
  (the document is dirty, so the timer does nothing).
\<close>

theorem change_in_normal_mode_not_recorded:
  "documentChanged (\<lambda>mh. mh\<lparr>currentContentChanges := Some []\<rparr>)
     \<lparr>documentFileName = ''a.ts'', documentIsDirty = True, documentIsUntitled = False,
      contentChanges =
        [\<lparr>changeRange = \<lparr>rangeStartLine = 0, rangeStartCharacter = 0, rangeEndLine = 0,
                          rangeEndCharacter = 0\<rparr>,
          changeText = ''x''\<rparr>]\<rparr>
     \<lparr>disableExtension = False, isTesting = False, mockModeHandler = None,
      modeHandlers =
        [\<lparr>currentMode = Normal, identityFileName = ''a.ts'', currentContentChanges = None\<rparr>]\<rparr>
   = (\<lparr>disableExtension = False, isTesting = False, mockModeHandler = None,
       modeHandlers =
         [\<lparr>currentMode = Normal, identityFileName = ''a.ts'', currentContentChanges = None\<rparr>]\<rparr>,
      [SetTimeout :: unit Effect])"
  by (simp add: documentChanged_def timeoutCallback_def onDidChangeTextDocument_def
      contentChangeHandler_def jumpTrackerEffects_def textWasDeleted_def textWasAdded_def)

lemma modeHandlers_onDidChangeTextDocument:
  fixes w' :: Workspace and effects :: "'args Effect list"
  assumes "onDidChangeTextDocument event w = (w', effects)"
  shows "modeHandlers w'
      = map (\<lambda>mh. if \<not> disableExtension w \<and> \<not> isTesting w
                      \<and> identityFileName mh = documentFileName event \<and> currentMode mh = Insert
                   then mh\<lparr>currentContentChanges :=
                          Some ((case currentContentChanges mh of None \<Rightarrow> [] | Some cs \<Rightarrow> cs)
                                  @ contentChanges event)\<rparr>
                   else mh)
          (modeHandlers w)"
    and "mockModeHandler w'
      = (if \<not> disableExtension w \<and> isTesting w
         then map_option
                (\<lambda>mh. if currentMode mh = Insert
                       then mh\<lparr>currentContentChanges :=
                              Some ((case currentContentChanges mh of None \<Rightarrow> [] | Some cs \<Rightarrow> cs)
                                      @ contentChanges event)\<rparr>
                       else mh)
                (mockModeHandler w)
         else mockModeHandler w)"
    and "(SetTimeout \<in> set effects) = (\<not> disableExtension w)"
    and "effects
      = (if disableExtension w then []
         else jumpTrackerEffects event
                @ (if isTesting w \<and> mockModeHandler w = None
                   then [ConsoleWarn ''No mode handler found''] else [])
                @ [SetTimeout])"
  using assms
  by (auto simp: onDidChangeTextDocument_def contentChangeHandler_def map_idI
      split: if_splits option.splits prod.splits)

text \<open>
  Claim C1, amended. While the extension is enabled, the listener appends the changes of
  the event (each with its range) to the \<^verbatim>\<open>currentContentChanges\<close>, taken as empty when
  undefined, of the mode handlers concerned that are in Insert mode, and of no other: the
  handlers concerned are those of the changed document, or in a test run the mock handler
  alone. The timer set by the listener then clears the history of every mode handler of
  the changed document, whatever its mode, when the document is neither dirty nor untitled
  and the event has changes, and does nothing otherwise. While the extension is disabled
  nothing is appended and no timer is set. The effects of the listener are the call of the
  jump tracker for a deleted or added line, the warning of a test run with no mock handler,
  and the timer.
\<close>

theorem change_recorded_in_insert_mode:
  fixes w' :: Workspace and effects :: "'args Effect list"
  assumes "documentChanged clear event w = (w', effects)"
    and "k < length (modeHandlers w)"
  shows "length (modeHandlers w') = length (modeHandlers w)
    \<and> modeHandlers w' ! k
        = (let mh = modeHandlers w ! k;
               appended =
                 (if \<not> disableExtension w \<and> \<not> isTesting w
                     \<and> identityFileName mh = documentFileName event \<and> currentMode mh = Insert
                  then mh\<lparr>currentContentChanges :=
                         Some ((case currentContentChanges mh of None \<Rightarrow> [] | Some cs \<Rightarrow> cs)
                                 @ contentChanges event)\<rparr>
                  else mh)
           in if \<not> disableExtension w \<and> identityFileName mh = documentFileName event
                 \<and> \<not> documentIsDirty event \<and> \<not> documentIsUntitled event
                 \<and> contentChanges event \<noteq> []
              then clear appended else appended)
    \<and> mockModeHandler w'
        = (if \<not> disableExtension w \<and> isTesting w
           then map_option
                  (\<lambda>mh. if currentMode mh = Insert
                         then mh\<lparr>currentContentChanges :=
                                Some ((case currentContentChanges mh of None \<Rightarrow> [] | Some cs \<Rightarrow> cs)
                                        @ contentChanges event)\<rparr>
                         else mh)
                  (mockModeHandler w)
           else mockModeHandler w)
    \<and> effects
        = (if disableExtension w then []
           else jumpTrackerEffects event
                  @ (if isTesting w \<and> mockModeHandler w = None
                     then [ConsoleWarn ''No mode handler found''] else [])
                  @ [SetTimeout])"
proof -
  obtain w1 where body: "onDidChangeTextDocument event w = (w1, effects)"
    and after: "w' = (if SetTimeout \<in> set effects then timeoutCallback clear event w1 else w1)"
    using assms(1) by (auto simp: documentChanged_def split: prod.splits)
  note facts = modeHandlers_onDidChangeTextDocument(1-3) [OF body]
  have "effects
        = (if disableExtension w then []
           else jumpTrackerEffects event
                  @ (if isTesting w \<and> mockModeHandler w = None
                     then [ConsoleWarn ''No mode handler found''] else [])
                  @ [SetTimeout])"
    by (rule modeHandlers_onDidChangeTextDocument(4) [OF body])
  then show ?thesis
    using assms(2)
    by (simp add: after facts timeoutCallback_def handleContentChangedFromDisk_def Let_def)
qed

theorem change_recorded_in_insert_mode_witness:
  "modeHandlers (fst (documentChanged (\<lambda>mh. mh\<lparr>currentContentChanges := Some []\<rparr>)
     \<lparr>documentFileName = ''a.ts'', documentIsDirty = True, documentIsUntitled = False,
      contentChanges =
        [\<lparr>changeRange = \<lparr>rangeStartLine = 0, rangeStartCharacter = 0, rangeEndLine = 0,
                          rangeEndCharacter = 0\<rparr>,
          changeText = ''x''\<rparr>]\<rparr>
     \<lparr>disableExtension = False, isTesting = False, mockModeHandler = None,
      modeHandlers =
        [\<lparr>currentMode = Insert, identityFileName = ''a.ts'', currentContentChanges = None\<rparr>,
         \<lparr>currentMode = Normal, identityFileName = ''a.ts'', currentContentChanges = None\<rparr>]\<rparr>
       :: Workspace \<times> unit Effect list)) ! 0
   = \<lparr>currentMode = Insert, identityFileName = ''a.ts'',
      currentContentChanges =
        Some [\<lparr>changeRange = \<lparr>rangeStartLine = 0, rangeStartCharacter = 0, rangeEndLine = 0,
                          rangeEndCharacter = 0\<rparr>,
               changeText = ''x''\<rparr>]\<rparr>"
proof -
  let ?clear = "\<lambda>mh. mh\<lparr>currentContentChanges := Some []\<rparr>"
  let ?event = "\<lparr>documentFileName = ''a.ts'', documentIsDirty = True,
      documentIsUntitled = False,
      contentChanges =
        [\<lparr>changeRange = \<lparr>rangeStartLine = 0, rangeStartCharacter = 0, rangeEndLine = 0,
                          rangeEndCharacter = 0\<rparr>,
          changeText = ''x''\<rparr>]\<rparr>"
  let ?w = "\<lparr>disableExtension = False, isTesting = False, mockModeHandler = None,
      modeHandlers =
        [\<lparr>currentMode = Insert, identityFileName = ''a.ts'', currentContentChanges = None\<rparr>,
         \<lparr>currentMode = Normal, identityFileName = ''a.ts'', currentContentChanges = None\<rparr>]\<rparr>"
  obtain w' and effects :: "unit Effect list"
    where r: "documentChanged ?clear ?event ?w = (w', effects)"
    by (cases "documentChanged ?clear ?event ?w :: Workspace \<times> unit Effect list")
  show ?thesis
    using change_recorded_in_insert_mode [OF r, of 0] by (simp add: r)
qed

text \<open>
  Claim C3, as stated, fails: with the extension disabled and an editor active, the command
  of a bound key combination is not forwarded to the host; it fetches the mode handler and
  enqueues the key for it.
\<close>

theorem bound_key_processed_while_disabled:
  "boundKeyCommand ''<Esc>'' ()
     \<lparr>extensionDisabled = True, activeTextEditor = Some (Some ''file:///a.ts'')\<rparr>
   = (\<lparr>extensionDisabled = True, activeTextEditor = Some (Some ''file:///a.ts'')\<rparr>,
      [GetAndUpdateModeHandler, EnqueueTask (KeyEventTask ''<Esc>'')])"
  by (simp add: boundKeyCommand_def registerCommand_def handleKeyEvent_def)

text \<open>
  Claim C3, amended. While the extension is disabled, every command registered through
  \<^verbatim>\<open>overrideCommand\<close> (\<^verbatim>\<open>type\<close>, \<^verbatim>\<open>replacePreviousChar\<close>, \<^verbatim>\<open>compositionStart\<close>,
  \<^verbatim>\<open>compositionEnd\<close>) is forwarded with its arguments to the host's \<^verbatim>\<open>default:\<close> command
  and does nothing else, and a document change is neither tracked as a jump nor recorded
  in a history; the \<^verbatim>\<open>toggleVim\<close> command, when an editor is active, clears the flag, sets
  the context \<^verbatim>\<open>vim.active\<close> and hands \<^verbatim>\<open><ExtensionEnable>\<close> to the mode handler, and does
  nothing when no editor is active.
\<close>

theorem disabled_forwards_overridden_commands:
  fixes args :: 'args
  assumes "extensionDisabled x" and "disableExtension w"
  shows "overrideCommand command callback args x
           = (x, [ExecuteCommand (''default:'' @ command) args])
    \<and> typeCommand args x = (x, [ExecuteCommand ''default:type'' args])
    \<and> replacePreviousCharCommand args x
        = (x, [ExecuteCommand ''default:replacePreviousChar'' args])
    \<and> compositionStartCommand args x = (x, [ExecuteCommand ''default:compositionStart'' args])
    \<and> compositionEndCommand args x = (x, [ExecuteCommand ''default:compositionEnd'' args])
    \<and> onDidChangeTextDocument event w = (w, ([] :: 'args Effect list))
    \<and> (if activeTextEditor x = None then toggleVimCommand args x = (x, [])
       else toggleVimCommand args x
            = (x\<lparr>extensionDisabled := False\<rparr>,
               [SetContext ''vim.active'' True, GetAndUpdateModeHandler,
                HandleKeyEvent ''<ExtensionEnable>'']))"
  using assms
  by (auto simp: overrideCommand_def typeCommand_def replacePreviousCharCommand_def
      compositionStartCommand_def compositionEndCommand_def onDidChangeTextDocument_def
      toggleVimCommand_def registerCommand_def toggleExtension_def split: option.splits)

theorem disabled_forwards_overridden_commands_witness:
  "typeCommand ''a'' \<lparr>extensionDisabled = True, activeTextEditor = Some (Some ''file:///a.ts'')\<rparr>
     = (\<lparr>extensionDisabled = True, activeTextEditor = Some (Some ''file:///a.ts'')\<rparr>,
        [ExecuteCommand ''default:type'' ''a''])
   \<and> toggleVimCommand ''a''
       \<lparr>extensionDisabled = True, activeTextEditor = Some (Some ''file:///a.ts'')\<rparr>
     = (\<lparr>extensionDisabled = False, activeTextEditor = Some (Some ''file:///a.ts'')\<rparr>,
        [SetContext ''vim.active'' True, GetAndUpdateModeHandler,
         HandleKeyEvent ''<ExtensionEnable>''])"
  using disabled_forwards_overridden_commands [of
      "\<lparr>extensionDisabled = True, activeTextEditor = Some (Some ''file:///a.ts'')\<rparr>"
      "\<lparr>disableExtension = True, isTesting = False, mockModeHandler = None, modeHandlers = []\<rparr>"
      "''type''" "\<lambda>args x. (x, [])" "''a''"
      "\<lparr>documentFileName = ''a.ts'', documentIsDirty = True, documentIsUntitled = False,
        contentChanges = []\<rparr>"]
  by simp

section \<open>Properties of the sort command\<close>

lemma collectLines_slice:
  "collectLines doc currentLine endLine originalLines
     = originalLines @ take (Suc endLine - currentLine) (drop currentLine doc)"
proof (induction doc currentLine endLine originalLines rule: collectLines.induct)
  case (1 doc currentLine endLine originalLines)
  show ?case
  proof (cases "currentLine \<le> endLine \<and> currentLine < length doc")
    case True
    then have step: "Suc endLine - currentLine = Suc (endLine - currentLine)" by arith
    have "collectLines doc currentLine endLine originalLines
            = collectLines doc (Suc currentLine) endLine (originalLines @ [doc ! currentLine])"
      using True by (simp add: collectLines.simps [of doc currentLine])
    also have "\<dots> = (originalLines @ [doc ! currentLine])
                         @ take (Suc endLine - Suc currentLine) (drop (Suc currentLine) doc)"
      using True by (rule "1.IH")
    also have "\<dots> = originalLines @ take (Suc endLine - currentLine) (drop currentLine doc)"
      using True by (simp add: step flip: Cons_nth_drop_Suc)
    finally show ?thesis .
  next
    case False
    then show ?thesis by (auto simp: collectLines.simps [of doc currentLine])
  qed
qed

lemma splitLines_not_Nil: "splitLines cs \<noteq> []"
  by (induction cs) (auto split: list.splits)

lemma splitLines_line: "newline \<notin> set l \<Longrightarrow> splitLines (l @ newline # rest) = l # splitLines rest"
  by (induction l) (auto split: list.splits)

lemma splitLines_single: "newline \<notin> set l \<Longrightarrow> splitLines l = [l]"
  by (induction l) (auto split: list.splits)

lemma splitLines_joinLines:
  "ls \<noteq> [] \<Longrightarrow> list_all (\<lambda>l. newline \<notin> set l) ls \<Longrightarrow> splitLines (joinLines ls) = ls"
  by (induction ls rule: joinLines.induct) (simp_all add: splitLines_single splitLines_line)

lemma mset_insertBy: "mset (insertBy cmp x ys) = add_mset x (mset ys)"
  by (induction ys) auto

lemma mset_sortBy: "mset (sortBy cmp xs) = mset xs"
  by (induction xs) (simp_all add: sortBy_def mset_insertBy)

lemma set_insertBy: "set (insertBy cmp x ys) = insert x (set ys)"
  by (simp add: mset_insertBy flip: set_mset_mset)

lemma sorted_insertBy:
  assumes total: "\<And>a b. cmp a b \<le> 0 \<or> cmp b a \<le> 0"
    and trans: "\<And>a b c. cmp a b \<le> 0 \<Longrightarrow> cmp b c \<le> 0 \<Longrightarrow> cmp a c \<le> 0"
  shows "sorted_wrt (\<lambda>a b. cmp a b \<le> 0) ys \<Longrightarrow> sorted_wrt (\<lambda>a b. cmp a b \<le> 0) (insertBy cmp x ys)"
proof (induction ys)
  case Nil
  show ?case by simp
next
  case (Cons y ys)
  show ?case
  proof (cases "cmp x y \<le> 0")
    case True
    with Cons.prems show ?thesis using trans by auto
  next
    case False
    with total [of x y] have "cmp y x \<le> 0" by simp
    with False Cons show ?thesis by (auto simp: set_insertBy)
  qed
qed

lemma sorted_sortBy:
  assumes "\<And>a b. cmp a b \<le> 0 \<or> cmp b a \<le> 0"
    and "\<And>a b c. cmp a b \<le> 0 \<Longrightarrow> cmp b c \<le> 0 \<Longrightarrow> cmp a c \<le> 0"
  shows "sorted_wrt (\<lambda>a b. cmp a b \<le> 0) (sortBy cmp xs)"
  by (induction xs) (simp_all add: sortBy_def sorted_insertBy [OF assms])

lemma replaceRange_whole_lines:
  assumes "startLine \<le> endLine" and "startLine < length doc"
  shows "replaceRange doc
           \<lparr>rangeStartLine = startLine, rangeStartCharacter = 0, rangeEndLine = endLine,
            rangeEndCharacter = length (last (take (Suc endLine - startLine) (drop startLine doc)))\<rparr>
           text
         = take startLine doc @ splitLines text @ drop (Suc endLine) doc"
proof (cases "endLine < length doc")
  case True
  have len: "length (take (Suc endLine - startLine) (drop startLine doc)) = Suc (endLine - startLine)"
    using assms True by (simp add: min_def) arith
  then have ne: "take (Suc endLine - startLine) (drop startLine doc) \<noteq> []"
    by auto
  have "last (take (Suc endLine - startLine) (drop startLine doc))
               = take (Suc endLine - startLine) (drop startLine doc) ! (endLine - startLine)"
    using last_conv_nth [OF ne] len by simp
  also have "\<dots> = doc ! endLine"
    using assms True by simp
  finally have "last (take (Suc endLine - startLine) (drop startLine doc)) = doc ! endLine" .
  then show ?thesis
    using assms True by (simp add: replaceRange_def validatePosition_def)
next
  case False
  have ne: "doc \<noteq> []" using assms by auto
  have "take (Suc endLine - startLine) (drop startLine doc) = drop startLine doc"
    using False by simp
  then have "last (take (Suc endLine - startLine) (drop startLine doc)) = last doc"
    using assms by simp
  then show ?thesis
    using assms False ne by (simp add: replaceRange_def validatePosition_def last_conv_nth)
qed

text \<open>
  A range with no existing line (it ends before it starts, or it starts beyond the last
  line) makes \<^verbatim>\<open>sortLines\<close> throw.
\<close>

lemma sortLines_no_existing_line:
  assumes "endLine < startLine \<or> length doc \<le> startLine"
  shows "sortLines localeCompare arguments doc startLine endLine = Inl TypeError"
proof -
  have none: "take (Suc endLine - startLine) (drop startLine doc) = []"
    using assms by auto
  show ?thesis
    by (simp add: sortLines_def sortLinesEdit_def collectLines_slice none arrayOfSet_def Let_def)
qed

text \<open>
  Without \<^verbatim>\<open>unique\<close>, for a range that starts at an existing line and a document whose
  lines hold no line feed, \<^verbatim>\<open>sortLines\<close> replaces the lines of the range that exist by a
  permutation of them and leaves every other line in place: the lines in the order of the
  sort (the default order, or that of the comparator when \<^verbatim>\<open>ignoreCase\<close> is set), reversed
  when \<^verbatim>\<open>reverse\<close> is set. The default order is ascending.
\<close>

lemma sortLines_not_unique:
  assumes "startLine \<le> endLine" and "startLine < length doc"
    and "list_all (\<lambda>l. newline \<notin> set l) doc" and "\<not> unique arguments"
  shows "\<exists>sortedLines.
      sortLines localeCompare arguments doc startLine endLine
        = Inr (take startLine doc @ sortedLines @ drop (Suc endLine) doc)
      \<and> mset sortedLines = mset (take (Suc endLine - startLine) (drop startLine doc))
      \<and> sortedLines
          = (if reverse arguments then rev else id)
              ((if ignoreCase arguments then sortBy localeCompare else sort)
                 (take (Suc endLine - startLine) (drop startLine doc)))
      \<and> sorted (sort (take (Suc endLine - startLine) (drop startLine doc)))"
proof -
  let ?orig = "take (Suc endLine - startLine) (drop startLine doc)"
  let ?sorted = "(if reverse arguments then rev else id)
              ((if ignoreCase arguments then sortBy localeCompare else sort) ?orig)"
  have ne: "?orig \<noteq> []" using assms by simp
  have m: "mset ?sorted = mset ?orig" by (simp add: mset_sortBy)
  then have s: "set ?sorted = set ?orig" by (rule mset_eq_setD)
  have "set ?orig \<subseteq> set doc"
    by (meson set_drop_subset set_take_subset subset_trans)
  with assms(3) s have nl: "list_all (\<lambda>l. newline \<notin> set l) ?sorted"
    by (auto simp: list_all_iff)
  have ne': "?sorted \<noteq> []" using ne m by (metis mset_zero_iff)
  have "sortLines localeCompare arguments doc startLine endLine
          = Inr (replaceRange doc
                   \<lparr>rangeStartLine = startLine, rangeStartCharacter = 0, rangeEndLine = endLine,
                    rangeEndCharacter = length (last ?orig)\<rparr>
                   (joinLines ?sorted))"
    using assms(4) ne by (simp add: sortLines_def sortLinesEdit_def collectLines_slice Let_def)
  also have "\<dots> = Inr (take startLine doc @ splitLines (joinLines ?sorted) @ drop (Suc endLine) doc)"
    using assms(1,2) by (simp only: replaceRange_whole_lines)
  also have "\<dots> = Inr (take startLine doc @ ?sorted @ drop (Suc endLine) doc)"
    by (simp only: splitLines_joinLines [OF ne' nl])
  finally show ?thesis using m by auto
qed

text \<open>
  Claim C10, at the input where the code departs from it. The document has the lines
  \<^verbatim>\<open>aa\<close>, \<^verbatim>\<open>b\<close>, \<^verbatim>\<open>aa\<close> and the whole of it is sorted with \<^verbatim>\<open>unique\<close>. The distinct lines
  are \<^verbatim>\<open>aa\<close> and \<^verbatim>\<open>b\<close>, but the end column of the replaced range is the length of the last
  distinct line, \<^verbatim>\<open>b\<close>, and not of the last line of the range: the edit replaces the
  text up to line 2, column 1, by \<^verbatim>\<open>aa\<close>, a line feed and \<^verbatim>\<open>b\<close>, so the last character of the
  document stays, and the result is \<^verbatim>\<open>aa\<close>, \<^verbatim>\<open>ba\<close>.
\<close>

theorem sort_unique_leaves_tail_of_last_line:
  "sortLinesEdit localeCompare \<lparr>reverse = False, ignoreCase = False, unique = True\<rparr>
     [[0x61, 0x61], [0x62], [0x61, 0x61]] 0 2
   = Inr (\<lparr>rangeStartLine = 0, rangeStartCharacter = 0, rangeEndLine = 2,
            rangeEndCharacter = 1\<rparr>,
          [0x61, 0x61, 0x0A, 0x62])
   \<and> sortLines localeCompare \<lparr>reverse = False, ignoreCase = False, unique = True\<rparr>
       [[0x61, 0x61], [0x62], [0x61, 0x61]] 0 2
     = Inr [[0x61, 0x61], [0x62, 0x61]]"
  by (simp add: sortLines_def sortLinesEdit_def collectLines.simps arrayOfSet_def
      replaceRange_def validatePosition_def newline_def Let_def)

end
